theory Spec2Isabelle
  imports Main
begin

section \<open>The team builder's node components (nodes.tsx)\<close>

text \<open>
  The development follows
  \<^verbatim>\<open>frontend/src/components/views/shared/team/builder.tsx/components/nodes.tsx\<close>:
  the drop-zone check of \<^verbatim>\<open>DroppableZone\<close>, the connection handles and drop zones the
  five node components render, and the style \<^verbatim>\<open>CustomEdge\<close> picks for an edge.
  Layout, icons and text content of the rendered elements are left out.
\<close>

subsection \<open>JavaScript values\<close>

text \<open>
  The drag context handed over by \<^verbatim>\<open>useDroppable\<close> and the \<^verbatim>\<open>data\<close> of an edge are
  untyped at run time (\<^verbatim>\<open>Record<string, any>\<close>), so they are modelled as JavaScript
  values. Only truthiness, property reads and comparison with a string are needed, so
  numbers are integers plus \<^verbatim>\<open>NaN\<close>, and an object is the list of its own properties,
  all of them plain data (no accessor runs on a read).
\<close>

datatype jsval =
    JUndefined
  | JNull
  | JBool bool
  | JNum int
  | JNaN
  | JStr string
  | JObj "(string \<times> jsval) list"

datatype error = TypeError

text \<open>\<^verbatim>\<open>ToBoolean\<close>: what \<^verbatim>\<open>&&\<close>, \<^verbatim>\<open>||\<close> and \<^verbatim>\<open>?:\<close> test.\<close>

fun truthy :: "jsval \<Rightarrow> bool" where
  "truthy JUndefined = False"
| "truthy JNull = False"
| "truthy (JBool b) = b"
| "truthy (JNum n) = (n \<noteq> 0)"
| "truthy JNaN = False"
| "truthy (JStr s) = (s \<noteq> [])"
| "truthy (JObj ps) = True"

fun isNullish :: "jsval \<Rightarrow> bool" where
  "isNullish JUndefined = True"
| "isNullish JNull = True"
| "isNullish v = False"

text \<open>Reading property \<open>k\<close> of a value that is neither \<^verbatim>\<open>null\<close> nor \<^verbatim>\<open>undefined\<close>:
  an object gives its property or \<^verbatim>\<open>undefined\<close>; a primitive has none of the
  properties read here.\<close>

fun getProp :: "jsval \<Rightarrow> string \<Rightarrow> jsval" where
  "getProp (JObj ps) k = (case map_of ps k of Some v \<Rightarrow> v | None \<Rightarrow> JUndefined)"
| "getProp v k = JUndefined"

text \<open>The plain member chain \<^verbatim>\<open>v.k1.k2...\<close>: a read on \<^verbatim>\<open>null\<close> or \<^verbatim>\<open>undefined\<close>
  throws a \<^verbatim>\<open>TypeError\<close>.\<close>

fun chain :: "jsval \<Rightarrow> string list \<Rightarrow> error + jsval" where
  "chain v [] = Inr v"
| "chain v (k # ks) = (if isNullish v then Inl TypeError else chain (getProp v k) ks)"

text \<open>The optional chain \<^verbatim>\<open>v?.k1?.k2...\<close>: a \<^verbatim>\<open>null\<close> or \<^verbatim>\<open>undefined\<close> on the left of
  a \<^verbatim>\<open>?.\<close> makes the whole chain \<^verbatim>\<open>undefined\<close>.\<close>

fun optChain :: "jsval \<Rightarrow> string list \<Rightarrow> jsval" where
  "optChain v [] = v"
| "optChain v (k # ks) = (if isNullish v then JUndefined else optChain (getProp v k) ks)"

subsection \<open>Component kinds\<close>

text \<open>Modelled from the spec: the type \<^verbatim>\<open>ComponentTypes\<close> is declared in
  \<^verbatim>\<open>types/datamodel\<close>, which is not among the sources. The spec's ComponentKind is the
  closed enumeration team, agent, model, tool, termination; they are the keys of
  \<^verbatim>\<open>iconMap\<close> and \<^verbatim>\<open>nodeTypes\<close> in the source. At run time a kind is its string.\<close>

datatype ComponentTypes = Team | Agent | Model | Tool | Termination

fun ComponentTypes_str :: "ComponentTypes \<Rightarrow> string" where
  "ComponentTypes_str Team = ''team''"
| "ComponentTypes_str Agent = ''agent''"
| "ComponentTypes_str Model = ''model''"
| "ComponentTypes_str Tool = ''tool''"
| "ComponentTypes_str Termination = ''termination''"

subsection \<open>DroppableZone\<close>

text \<open>\<^verbatim>\<open>accepts.includes(v)\<close> for an array of kinds: some element is the same value as
  \<open>v\<close>, which for a string element means \<open>v\<close> is that string.\<close>

fun accepts_includes :: "ComponentTypes list \<Rightarrow> jsval \<Rightarrow> bool" where
  "accepts_includes [] v = False"
| "accepts_includes (k # ks) v = (JStr (ComponentTypes_str k) = v \<or> accepts_includes ks v)"

definition activeTypePath :: "string list" where
  "activeTypePath = [''data'', ''current'', ''current'', ''type'']"

text \<open>
  \<^verbatim>\<open>const isValidDrop = isOver && active?.data?.current?.current?.type &&
       accepts.includes(active.data.current.current.type);\<close>

  \<^verbatim>\<open>a && b\<close> is \<open>a\<close> when \<open>a\<close> is falsy and \<open>b\<close> otherwise, so the value can be
  \<^verbatim>\<open>false\<close>, a falsy dragged type, or the boolean of \<^verbatim>\<open>includes\<close>. The argument of
  \<^verbatim>\<open>includes\<close> is a plain member chain, which throws on a missing link.
\<close>

definition isValidDrop :: "ComponentTypes list \<Rightarrow> bool \<Rightarrow> jsval \<Rightarrow> error + jsval" where
  "isValidDrop accepts isOver active =
     (if \<not> isOver then Inr (JBool False)
      else let t = optChain active activeTypePath in
        if \<not> truthy t then Inr t
        else case chain active activeTypePath of
               Inl e \<Rightarrow> Inl e
             | Inr t' \<Rightarrow> Inr (JBool (accepts_includes accepts t')))"

text \<open>The zone's only use of the value is the test of
  \<^verbatim>\<open>isValidDrop ? "can-drop" : ""\<close>: the verdict is its truthiness.\<close>

definition canDrop :: "ComponentTypes list \<Rightarrow> bool \<Rightarrow> jsval \<Rightarrow> error + bool" where
  "canDrop accepts isOver active =
     (case isValidDrop accepts isOver active of
        Inl e \<Rightarrow> Inl e
      | Inr v \<Rightarrow> Inr (truthy v))"

text \<open>The class of the rendered \<^verbatim>\<open>div\<close>:
  \<^verbatim>\<open>`droppable-zone p-2 ${isValidDrop ? "can-drop" : ""} ${className || ""}`\<close>.\<close>

definition DroppableZone ::
  "ComponentTypes list \<Rightarrow> string option \<Rightarrow> bool \<Rightarrow> jsval \<Rightarrow> error + string" where
  "DroppableZone accepts className isOver active =
     (case canDrop accepts isOver active of
        Inl e \<Rightarrow> Inl e
      | Inr b \<Rightarrow> Inr (''droppable-zone p-2 '' @ (if b then ''can-drop'' else '''') @ '' '' @
                       (case className of None \<Rightarrow> '''' | Some c \<Rightarrow> c)))"

text \<open>The dragged item's type as the zone reads it.\<close>

definition draggedType :: "jsval \<Rightarrow> jsval" where
  "draggedType active = optChain active activeTypePath"

subsection \<open>Component configurations\<close>

text \<open>Modelled from the spec: the config interfaces are declared in
  \<^verbatim>\<open>types/datamodel\<close>, which is not among the sources. The fields are those of the
  spec's ComponentConfig variants, under the names the components read them by
  (\<^verbatim>\<open>config.model_client\<close>, \<^verbatim>\<open>config.termination_condition\<close>, \<^verbatim>\<open>participant.name\<close>,
  \<^verbatim>\<open>tool.name\<close>, ...); a field shared by two variants is prefixed with its variant.
  An optional field is an \<open>option\<close>: \<open>None\<close> is \<^verbatim>\<open>undefined\<close>.\<close>

record ModelConfig =
  model_type :: string
  model :: string
  base_url :: "string option"

record ToolConfig =
  tool_name :: string
  tool_type :: string
  description :: string
  content :: string

record TerminationConfig =
  termination_type :: string
  max_messages :: "nat option"

record AgentConfig =
  agent_name :: string
  agent_type :: string
  agent_model_client :: "ModelConfig option"
  system_message :: "string option"
  tools :: "ToolConfig list option"

record TeamConfig =
  team_type :: string
  team_model_client :: "ModelConfig option"
  participants :: "AgentConfig list option"
  selector_prompt :: "string option"
  termination_condition :: "TerminationConfig option"

datatype ComponentConfig =
    TeamCfg TeamConfig
  | AgentCfg AgentConfig
  | ModelCfg ModelConfig
  | ToolCfg ToolConfig
  | TerminationCfg TerminationConfig

fun configTag :: "ComponentConfig \<Rightarrow> ComponentTypes" where
  "configTag (TeamCfg c) = Team"
| "configTag (AgentCfg c) = Agent"
| "configTag (ModelCfg c) = Model"
| "configTag (ToolCfg c) = Tool"
| "configTag (TerminationCfg c) = Termination"

text \<open>
  Every component starts with a cast, \<^verbatim>\<open>const config = props.data.config as TeamConfig\<close>.
  A TypeScript cast is erased: at run time \<^verbatim>\<open>config.model_client\<close> is a read by name on
  whatever object is there, and a name the object lacks reads \<^verbatim>\<open>undefined\<close>. The
  readers below are these reads.
\<close>

fun read_model_client :: "ComponentConfig \<Rightarrow> ModelConfig option" where
  "read_model_client (TeamCfg c) = team_model_client c"
| "read_model_client (AgentCfg c) = agent_model_client c"
| "read_model_client c = None"

fun read_termination_condition :: "ComponentConfig \<Rightarrow> TerminationConfig option" where
  "read_termination_condition (TeamCfg c) = termination_condition c"
| "read_termination_condition c = None"

subsection \<open>Node components\<close>

text \<open>Modelled from the spec: \<^verbatim>\<open>NodeData\<close> and \<^verbatim>\<open>CustomNode\<close> are declared in
  \<^verbatim>\<open>../types\<close>, which is not among the sources. The spec's Node carries a label, a kind
  and a config; the components read them as \<^verbatim>\<open>props.data.label\<close>, \<^verbatim>\<open>props.data.type\<close>
  and \<^verbatim>\<open>props.data.config\<close>, next to \<^verbatim>\<open>props.id\<close>.\<close>

record NodeData =
  label :: string
  data_type :: ComponentTypes
  config :: ComponentConfig

record NodeProps =
  node_id :: string
  data :: NodeData
  selected :: bool

datatype HandleType = Source | Target

datatype Position = Left | Right

text \<open>A rendered \<^verbatim>\<open><Handle type position id className />\<close>.\<close>

record Handle =
  handle_type :: HandleType
  handle_position :: Position
  handle_id :: string
  handle_className :: string

text \<open>A rendered \<^verbatim>\<open><DroppableZone id accepts />\<close>.\<close>

record DroppableZoneProps =
  zone_id :: string
  zone_accepts :: "ComponentTypes list"

text \<open>What a node component renders, as far as connections go: its handles and its
  drop zones, in document order.\<close>

record NodeView =
  handles :: "Handle list"
  zones :: "DroppableZoneProps list"

definition input_handle :: "HandleType \<Rightarrow> string \<Rightarrow> Handle" where
  "input_handle ty i =
     \<lparr>handle_type = ty, handle_position = Left,
      handle_id = i @ ''-input-handle'', handle_className = ''my-left-handle''\<rparr>"

definition output_handle :: "HandleType \<Rightarrow> string \<Rightarrow> Handle" where
  "output_handle ty i =
     \<lparr>handle_type = ty, handle_position = Right,
      handle_id = i @ ''-output-handle'', handle_className = ''my-right-handle''\<rparr>"

text \<open>\<^verbatim>\<open>TeamNode\<close>: the target handle is rendered under
  \<^verbatim>\<open>(config.model_client || config.termination_condition) && ...\<close>; both fields are
  objects when present, hence truthy.\<close>

definition TeamNode :: "NodeProps \<Rightarrow> NodeView" where
  "TeamNode props =
     (let config = config (data props) in
      \<lparr>handles =
         (if read_model_client config \<noteq> None \<or> read_termination_condition config \<noteq> None
          then [input_handle Target (node_id props)] else []) @
         [output_handle Source (node_id props)],
       zones =
         [\<lparr>zone_id = node_id props @ ''-model-zone'', zone_accepts = [Model]\<rparr>,
          \<lparr>zone_id = node_id props @ ''-agent-zone'', zone_accepts = [Agent]\<rparr>,
          \<lparr>zone_id = node_id props @ ''-termination-zone'', zone_accepts = [Termination]\<rparr>]\<rparr>)"

text \<open>\<^verbatim>\<open>AgentNode\<close>: both handles are written with \<^verbatim>\<open>type="target"\<close>, the one on the
  left with id \<^verbatim>\<open>-input-handle\<close> and the one on the right with id \<^verbatim>\<open>-output-handle\<close>.\<close>

definition AgentNode :: "NodeProps \<Rightarrow> NodeView" where
  "AgentNode props =
     \<lparr>handles =
        [input_handle Target (node_id props),
         output_handle Target (node_id props)],
      zones =
        [\<lparr>zone_id = node_id props @ ''-model-zone'', zone_accepts = [Model]\<rparr>,
         \<lparr>zone_id = node_id props @ ''-tool-zone'', zone_accepts = [Tool]\<rparr>]\<rparr>"

definition ModelNode :: "NodeProps \<Rightarrow> NodeView" where
  "ModelNode props = \<lparr>handles = [output_handle Source (node_id props)], zones = []\<rparr>"

definition ToolNode :: "NodeProps \<Rightarrow> NodeView" where
  "ToolNode props = \<lparr>handles = [output_handle Source (node_id props)], zones = []\<rparr>"

definition TerminationNode :: "NodeProps \<Rightarrow> NodeView" where
  "TerminationNode props = \<lparr>handles = [output_handle Source (node_id props)], zones = []\<rparr>"

text \<open>\<^verbatim>\<open>nodeTypes\<close>: the component registered under each kind.\<close>

fun nodeTypes :: "ComponentTypes \<Rightarrow> NodeProps \<Rightarrow> NodeView" where
  "nodeTypes Team = TeamNode"
| "nodeTypes Agent = AgentNode"
| "nodeTypes Model = ModelNode"
| "nodeTypes Tool = ToolNode"
| "nodeTypes Termination = TerminationNode"

text \<open>The handles of one role.\<close>

definition handlesOfType :: "HandleType \<Rightarrow> NodeView \<Rightarrow> Handle list" where
  "handlesOfType ty v = filter (\<lambda>h. handle_type h = ty) (handles v)"

subsection \<open>CustomEdge\<close>

datatype EdgeType = model_connection | tool_connection | participant_connection

fun EdgeType_str :: "EdgeType \<Rightarrow> string" where
  "EdgeType_str model_connection = ''model-connection''"
| "EdgeType_str tool_connection = ''tool-connection''"
| "EdgeType_str participant_connection = ''participant-connection''"

record CSSProperties =
  stroke :: "string option"
  strokeWidth :: "nat option"

text \<open>\<^verbatim>\<open>EDGE_STYLES\<close>, each key with the stroke of its style object.\<close>

definition EDGE_STYLES :: "(string \<times> string) list" where
  "EDGE_STYLES =
     [(''model-connection'', ''rgb(59, 130, 246)''),
      (''tool-connection'', ''rgb(34, 197, 94)''),
      (''participant-connection'', ''rgb(168, 85, 247)'')]"

text \<open>\<^verbatim>\<open>const edgeType = (data?.type as EdgeType) || "model-connection"\<close>: the cast is
  erased, so any truthy \<^verbatim>\<open>data.type\<close> is kept as it is.\<close>

definition edgeType :: "jsval \<Rightarrow> jsval" where
  "edgeType edata =
     (let t = optChain edata [''type''] in if truthy t then t else JStr ''model-connection'')"

text \<open>\<^verbatim>\<open>{ ...EDGE_STYLES[edgeType], strokeWidth: 2 }\<close>: a key outside the table reads
  nothing that has a stroke, and spreading it adds nothing.\<close>

definition edgeStyle :: "jsval \<Rightarrow> CSSProperties" where
  "edgeStyle edata =
     \<lparr>stroke = (case edgeType edata of JStr s \<Rightarrow> map_of EDGE_STYLES s | _ \<Rightarrow> None),
      strokeWidth = Some 2\<rparr>"

text \<open>An own property of a props object: absent, or present with a value (which may be
  \<^verbatim>\<open>undefined\<close>).\<close>

datatype 'a own_property = Absent | Present 'a

text \<open>The rest of the edge's props, \<^verbatim>\<open>({ data, ...props }: EdgeProps)\<close>, as far as it
  meets the attributes written before the spread: \<^verbatim>\<open>EdgeProps\<close> declares a \<^verbatim>\<open>style\<close>;
  it declares no \<^verbatim>\<open>path\<close>, but an object that has one is spread all the same.\<close>

record EdgeRestProps =
  own_path :: "string option own_property"
  own_style :: "CSSProperties option own_property"

text \<open>The props handed to \<^verbatim>\<open>BaseEdge\<close>.\<close>

record BaseEdgeProps =
  path :: "string option"
  style :: "CSSProperties option"

text \<open>
  \<^verbatim>\<open><BaseEdge path={edgePath} style={{...}} {...props} />\<close>, where \<open>props\<close> is every
  edge prop but \<^verbatim>\<open>data\<close>. The spread comes last, so an own \<^verbatim>\<open>path\<close> or \<^verbatim>\<open>style\<close>
  property of the rest, even one whose value is \<^verbatim>\<open>undefined\<close>, replaces the attribute
  written before it: the bezier path, and the style computed from the type.
  \<open>edgePath\<close> is the first component of \<^verbatim>\<open>getBezierPath(props)\<close>, taken as given.
\<close>

definition CustomEdge :: "jsval \<Rightarrow> EdgeRestProps \<Rightarrow> string \<Rightarrow> BaseEdgeProps" where
  "CustomEdge edata props edgePath =
     \<lparr>path = (case own_path props of Absent \<Rightarrow> Some edgePath | Present p \<Rightarrow> p),
      style = (case own_style props of Absent \<Rightarrow> Some (edgeStyle edata) | Present s \<Rightarrow> s)\<rparr>"

text \<open>\<^verbatim>\<open>edgeTypes\<close>: the edge types that are registered, all with \<^verbatim>\<open>CustomEdge\<close>.\<close>

definition edgeTypes :: "EdgeType list" where
  "edgeTypes = [model_connection, tool_connection, participant_connection]"

section \<open>The graph assembler\<close>

text \<open>
  The code that creates nodes and edges and attaches one component to another is not in
  \<^verbatim>\<open>nodes.tsx\<close>, which only renders them. The definitions of this section are therefore
  written from the spec's sections 3, 4.4 and 4.5. They use the kinds, configurations and
  connection types above.
\<close>

text \<open>Modelled from the spec: the error kinds of section 7; the assembler's code is
  missing.\<close>

datatype graph_error = KindMismatch | IncompatibleKinds | SlotOccupied | UnknownNode

text \<open>Modelled from the spec: a slot is "a named attachment position on a parent's config
  (a team's model slot, participant list, termination slot)"; the slot type is missing.\<close>

datatype Slot = ModelSlot | ParticipantSlot | ToolSlot | TerminationSlot

text \<open>Modelled from the spec: Node = { id, kind, label, config, position }; the node type
  of the missing store.\<close>

record Node =
  nid :: nat
  kind :: ComponentTypes
  node_label :: string
  node_config :: ComponentConfig
  position :: "int \<times> int"

text \<open>Modelled from the spec: Handle = { owning node id, role, slot id }, as an edge
  refers to it; the edge type of the missing store.\<close>

record HandleRef =
  owner :: nat
  role :: HandleType
  slot_id :: string

text \<open>Modelled from the spec: Edge = { id, source handle, target handle, connection
  type }; the edge type of the missing store.\<close>

record Edge =
  eid :: nat
  source :: HandleRef
  target :: HandleRef
  connection_type :: EdgeType

text \<open>Modelled from the spec: Graph = { nodes keyed by id, edges keyed by id }; the state
  of the missing store. The lists are in creation order.\<close>

record Graph =
  nodes :: "Node list"
  edges :: "Edge list"

text \<open>Modelled from the spec: the lifecycle starts from a graph without nodes or edges
  ("start with empty graph"); the store's initial state is missing.\<close>

definition emptyGraph :: Graph where
  "emptyGraph = \<lparr>nodes = [], edges = []\<rparr>"

text \<open>Modelled from the spec: nodes are "keyed by id"; the store's lookup is missing.\<close>

definition lookupNode :: "Graph \<Rightarrow> nat \<Rightarrow> Node option" where
  "lookupNode g i = find (\<lambda>n. nid n = i) (nodes g)"

text \<open>Modelled from the spec: a new node or edge gets "a newly generated unique id"; the
  store's id generation is missing. The new id is one above the largest in the graph.\<close>

definition freshNodeId :: "Graph \<Rightarrow> nat" where
  "freshNodeId g = Suc (foldr max (map nid (nodes g)) 0)"

definition freshEdgeId :: "Graph \<Rightarrow> nat" where
  "freshEdgeId g = Suc (foldr max (map eid (edges g)) 0)"

text \<open>Modelled from the spec: the table of section 3, "model\<rightarrow>{team,agent} is
  model-connection; tool\<rightarrow>agent is tool-connection; agent\<rightarrow>team is
  participant-connection; no other kind pairs may be connected"; the store's derivation of
  an edge's type is missing. The first argument is the source's kind.\<close>

fun deriveConnectionType :: "ComponentTypes \<Rightarrow> ComponentTypes \<Rightarrow> EdgeType option" where
  "deriveConnectionType Model Team = Some model_connection"
| "deriveConnectionType Model Agent = Some model_connection"
| "deriveConnectionType Tool Agent = Some tool_connection"
| "deriveConnectionType Agent Team = Some participant_connection"
| "deriveConnectionType ks kt = None"

text \<open>Modelled from the spec: step 2 of section 4.4, "the target slot enforces
  single-occupancy (model slot on Team/Agent; termination slot on Team) and is already
  attached"; the store's occupancy check is missing. A slot is attached when the target's
  config holds the reference.\<close>

fun slotOccupied :: "Node \<Rightarrow> Slot \<Rightarrow> bool" where
  "slotOccupied n ModelSlot =
     ((kind n = Team \<or> kind n = Agent) \<and> read_model_client (node_config n) \<noteq> None)"
| "slotOccupied n TerminationSlot =
     (kind n = Team \<and> read_termination_condition (node_config n) \<noteq> None)"
| "slotOccupied n s = False"

text \<open>Modelled from the spec: \<^verbatim>\<open>proposeConnection(sourceNode, targetNode, targetSlot)\<close>
  of section 4.4, whose code is missing; its four steps in the spec's order. The new edge
  runs from the source's output handle to the target's input handle.\<close>

definition proposeConnection :: "Graph \<Rightarrow> Node \<Rightarrow> Node \<Rightarrow> Slot \<Rightarrow> graph_error + Edge" where
  "proposeConnection g sourceNode targetNode targetSlot =
     (case deriveConnectionType (kind sourceNode) (kind targetNode) of
        None \<Rightarrow> Inl IncompatibleKinds
      | Some ct \<Rightarrow>
          if slotOccupied targetNode targetSlot then Inl SlotOccupied
          else if lookupNode g (nid sourceNode) = None \<or> lookupNode g (nid targetNode) = None
          then Inl UnknownNode
          else Inr \<lparr>eid = freshEdgeId g,
                    source = \<lparr>owner = nid sourceNode, role = Source, slot_id = ''output-handle''\<rparr>,
                    target = \<lparr>owner = nid targetNode, role = Target, slot_id = ''input-handle''\<rparr>,
                    connection_type = ct\<rparr>)"

text \<open>Modelled from the spec: the config update of \<^verbatim>\<open>attach\<close> in section 4.5, "also
  updates the parent's ComponentConfig to hold the reference (e.g., appends to
  Team.participants)"; the store's code is missing. The first argument is the parent's
  config, the second the child's.\<close>

fun holdReference :: "ComponentConfig \<Rightarrow> ComponentConfig \<Rightarrow> ComponentConfig" where
  "holdReference (TeamCfg c) (ModelCfg m) = TeamCfg (c\<lparr>team_model_client := Some m\<rparr>)"
| "holdReference (AgentCfg c) (ModelCfg m) = AgentCfg (c\<lparr>agent_model_client := Some m\<rparr>)"
| "holdReference (AgentCfg c) (ToolCfg t) =
     AgentCfg (c\<lparr>tools := Some ((case tools c of None \<Rightarrow> [] | Some ts \<Rightarrow> ts) @ [t])\<rparr>)"
| "holdReference (TeamCfg c) (AgentCfg a) =
     TeamCfg (c\<lparr>participants := Some ((case participants c of None \<Rightarrow> [] | Some ps \<Rightarrow> ps) @ [a])\<rparr>)"
| "holdReference parent child = parent"

text \<open>Modelled from the spec: the field of the parent's config in which \<^verbatim>\<open>attach\<close>
  holds the reference, case by case as in \<open>holdReference\<close>; the store's code is
  missing.\<close>

fun heldSlot :: "ComponentConfig \<Rightarrow> ComponentConfig \<Rightarrow> Slot option" where
  "heldSlot (TeamCfg c) (ModelCfg m) = Some ModelSlot"
| "heldSlot (AgentCfg c) (ModelCfg m) = Some ModelSlot"
| "heldSlot (AgentCfg c) (ToolCfg t) = Some ToolSlot"
| "heldSlot (TeamCfg c) (AgentCfg a) = Some ParticipantSlot"
| "heldSlot parent child = None"

text \<open>Modelled from the spec: "the corresponding config reference" of an edge, located
  in the parent's config; the store's code is missing. \<open>edgeSlot\<close> is the field that
  holds it. \<^verbatim>\<open>attach\<close> puts a reference last (or over the one before, for a model), and
  the edge last among the edges, so the reference of an edge is the \<open>j\<close>-th from the
  end, where \<open>j\<close> counts the edge itself and the later edges held in the same field of
  the same parent. The position does not depend on what the child's config has become
  since.\<close>

definition edgeSlot :: "Graph \<Rightarrow> Edge \<Rightarrow> Slot option" where
  "edgeSlot g e =
     (case (lookupNode g (owner (target e)), lookupNode g (owner (source e))) of
        (Some parent, Some child) \<Rightarrow> heldSlot (node_config parent) (node_config child)
      | _ \<Rightarrow> None)"

definition referenceFromEnd :: "Graph \<Rightarrow> Edge \<Rightarrow> nat" where
  "referenceFromEnd g e =
     length (filter (\<lambda>e'. owner (target e') = owner (target e) \<and> edgeSlot g e' = edgeSlot g e)
               (dropWhile (\<lambda>e'. eid e' \<noteq> eid e) (edges g)))"

text \<open>The list without its \<open>j\<close>-th entry from the end; unchanged when there is none.\<close>

definition dropFromEnd :: "nat \<Rightarrow> 'a list \<Rightarrow> 'a list" where
  "dropFromEnd j xs =
     (if j = 0 \<or> length xs < j then xs
      else take (length xs - j) xs @ drop (Suc (length xs - j)) xs)"

text \<open>Modelled from the spec: the config update of \<^verbatim>\<open>detach\<close> in section 4.5, "removes
  the edge and the corresponding config reference"; the store's code is missing. The
  arguments are the parent's config, the field holding the reference and its position from
  the end. A model reference belongs to the last model edge into the parent.\<close>

fun dropReference :: "ComponentConfig \<Rightarrow> Slot option \<Rightarrow> nat \<Rightarrow> ComponentConfig" where
  "dropReference (TeamCfg c) (Some ModelSlot) j =
     (if j = 1 then TeamCfg (c\<lparr>team_model_client := None\<rparr>) else TeamCfg c)"
| "dropReference (AgentCfg c) (Some ModelSlot) j =
     (if j = 1 then AgentCfg (c\<lparr>agent_model_client := None\<rparr>) else AgentCfg c)"
| "dropReference (AgentCfg c) (Some ToolSlot) j =
     AgentCfg (c\<lparr>tools := map_option (dropFromEnd j) (tools c)\<rparr>)"
| "dropReference (TeamCfg c) (Some ParticipantSlot) j =
     TeamCfg (c\<lparr>participants := map_option (dropFromEnd j) (participants c)\<rparr>)"
| "dropReference parent s j = parent"

text \<open>Modelled from the spec: a node is "mutated in place when a nested config field
  changes"; the store's update is missing. The config of the node with id \<open>i\<close> is
  replaced; id and kind stay.\<close>

definition mapConfig :: "nat \<Rightarrow> (ComponentConfig \<Rightarrow> ComponentConfig) \<Rightarrow> Node list \<Rightarrow> Node list" where
  "mapConfig i f ns =
     map (\<lambda>n. if nid n = i then n\<lparr>node_config := f (node_config n)\<rparr> else n) ns"

text \<open>Modelled from the spec: \<^verbatim>\<open>addNode(kind, config, position)\<close> of section 4.5, "new
  Node; always succeeds", with "a newly generated unique id"; the store's code is missing.
  The label, which the spec's signature leaves open, is an argument.\<close>

definition addNode :: "Graph \<Rightarrow> ComponentTypes \<Rightarrow> ComponentConfig \<Rightarrow> string \<Rightarrow> int \<times> int \<Rightarrow> Graph" where
  "addNode g k c l pos =
     g\<lparr>nodes := nodes g @
         [\<lparr>nid = freshNodeId g, kind = k, node_label = l, node_config = c, position = pos\<rparr>]\<rparr>"

text \<open>Modelled from the spec: \<^verbatim>\<open>attach(parentId, childId, slot)\<close> of section 4.5, which
  "wraps proposeConnection and, on success, also updates the parent's ComponentConfig to
  hold the reference"; the store's code is missing. The child is the source and the parent
  the target. An id that names no node gives \<open>UnknownNode\<close>. The graph is returned
  with the outcome, so that a failure shows what it left behind.\<close>

definition attach :: "Graph \<Rightarrow> nat \<Rightarrow> nat \<Rightarrow> Slot \<Rightarrow> (graph_error + Edge) \<times> Graph" where
  "attach g parentId childId slot =
     (case (lookupNode g parentId, lookupNode g childId) of
        (Some parent, Some child) \<Rightarrow>
          (case proposeConnection g child parent slot of
             Inl err \<Rightarrow> (Inl err, g)
           | Inr e \<Rightarrow>
               (Inr e,
                g\<lparr>nodes := mapConfig parentId (\<lambda>c. holdReference c (node_config child)) (nodes g),
                  edges := edges g @ [e]\<rparr>))
      | _ \<Rightarrow> (Inl UnknownNode, g))"

text \<open>Modelled from the spec: \<^verbatim>\<open>detach(edgeId)\<close> of section 4.5, "inverse of attach;
  removes the edge and the corresponding config reference"; the store's code is missing.\<close>

definition detach :: "Graph \<Rightarrow> nat \<Rightarrow> Graph" where
  "detach g edgeId =
     (case find (\<lambda>e. eid e = edgeId) (edges g) of
        None \<Rightarrow> g
      | Some e \<Rightarrow>
          g\<lparr>nodes :=
              mapConfig (owner (target e))
                (\<lambda>c. dropReference c (edgeSlot g e) (referenceFromEnd g e)) (nodes g),
            edges := filter (\<lambda>e'. eid e' \<noteq> edgeId) (edges g)\<rparr>)"

text \<open>Modelled from the spec: \<^verbatim>\<open>removeNode(id)\<close> of section 4.5, "removes the node and
  cascades: every Edge with an endpoint on this node is also removed, and every parent
  config field that referenced this node is updated to drop the reference"; the store's
  code is missing.\<close>

definition removeNode :: "Graph \<Rightarrow> nat \<Rightarrow> Graph" where
  "removeNode g i =
     (let touching = filter (\<lambda>e. owner (source e) = i \<or> owner (target e) = i) (edges g);
          g' = fold (\<lambda>e h. detach h (eid e)) touching g
      in g'\<lparr>nodes := filter (\<lambda>n. nid n \<noteq> i) (nodes g')\<rparr>)"

text \<open>Modelled from the spec: section 5, the graph "is mutated only in response to
  discrete user interaction events, processed one at a time", all of them operations of the
  assembler; the store's event handling is missing. A graph of the builder is what a
  sequence of operations makes of the empty graph.\<close>

datatype GraphOp =
    AddNode ComponentTypes ComponentConfig string "int \<times> int"
  | Attach nat nat Slot
  | Detach nat
  | RemoveNode nat

text \<open>Modelled from the spec: one event is one operation of section 4.5 applied to the
  graph; the store's event handling is missing.\<close>

fun applyOp :: "Graph \<Rightarrow> GraphOp \<Rightarrow> Graph" where
  "applyOp g (AddNode k c l pos) = addNode g k c l pos"
| "applyOp g (Attach parentId childId slot) = snd (attach g parentId childId slot)"
| "applyOp g (Detach edgeId) = detach g edgeId"
| "applyOp g (RemoveNode i) = removeNode g i"

text \<open>Modelled from the spec: the events are "processed one at a time in the order they
  are dispatched", starting from the empty graph; the store's event loop is missing.\<close>

definition run :: "GraphOp list \<Rightarrow> Graph" where
  "run ops = foldl applyOp emptyGraph ops"

text \<open>Modelled from the spec: "the endpoint kind pair" of an edge, read off the graph: the
  kind of the node with id \<open>i\<close>, and the kinds of the nodes that own an edge's source
  and target handles. The store's edges are missing.\<close>

definition kindOf :: "Graph \<Rightarrow> nat \<Rightarrow> ComponentTypes option" where
  "kindOf g i = map_option kind (lookupNode g i)"

definition edgeKinds :: "Graph \<Rightarrow> Edge \<Rightarrow> ComponentTypes option \<times> ComponentTypes option" where
  "edgeKinds g e = (kindOf g (owner (source e)), kindOf g (owner (target e)))"

text \<open>Modelled from the spec: the edge invariant of section 3, "an edge's connection type
  must be derivable from the kind pair it connects"; the store's edges are missing. Both
  endpoints name nodes of the graph and the table gives the edge's type for their kinds.\<close>

definition edgeTyped :: "Graph \<Rightarrow> Edge \<Rightarrow> bool" where
  "edgeTyped g e =
     (case edgeKinds g e of
        (Some ks, Some kt) \<Rightarrow> deriveConnectionType ks kt = Some (connection_type e)
      | _ \<Rightarrow> False)"

section \<open>Example values\<close>

text \<open>The drag context of an item of the given type, in the shape the zone reads:
  \<^verbatim>\<open>{ data: { current: { current: { type } } } }\<close>.\<close>

definition activeOfType :: "string \<Rightarrow> jsval" where
  "activeOfType t =
     JObj [(''data'', JObj [(''current'', JObj [(''current'', JObj [(''type'', JStr t)])])])]"

definition gpt_model :: ModelConfig where
  "gpt_model = \<lparr>model_type = ''OpenAIChatCompletionClient'', model = ''gpt-x'', base_url = None\<rparr>"

definition agent_with_model :: AgentConfig where
  "agent_with_model =
     \<lparr>agent_name = ''writer'', agent_type = ''AssistantAgent'',
      agent_model_client = Some gpt_model, system_message = None, tools = None\<rparr>"

definition team_with_model :: TeamConfig where
  "team_with_model =
     \<lparr>team_type = ''RoundRobinGroupChat'', team_model_client = Some gpt_model,
      participants = None, selector_prompt = None, termination_condition = None\<rparr>"

definition bare_team :: TeamConfig where
  "bare_team =
     \<lparr>team_type = ''RoundRobinGroupChat'', team_model_client = None,
      participants = None, selector_prompt = None, termination_condition = None\<rparr>"

definition team_props :: NodeProps where
  "team_props =
     \<lparr>node_id = ''n1'',
      data = \<lparr>label = ''team'', data_type = Team, config = TeamCfg team_with_model\<rparr>,
      selected = False\<rparr>"

text \<open>A node of kind team whose config is an agent's.\<close>

definition mismatched_props :: NodeProps where
  "mismatched_props =
     \<lparr>node_id = ''n1'',
      data = \<lparr>label = ''writer'', data_type = Team, config = AgentCfg agent_with_model\<rparr>,
      selected = True\<rparr>"

text \<open>A team, two models, and the first model attached to the team: the operations, and
  the graph they make.\<close>

definition other_model :: ModelConfig where
  "other_model = \<lparr>model_type = ''OpenAIChatCompletionClient'', model = ''gpt-y'', base_url = None\<rparr>"

definition example_ops :: "GraphOp list" where
  "example_ops =
     [AddNode Team (TeamCfg bare_team) ''team'' (0, 0),
      AddNode Model (ModelCfg gpt_model) ''first model'' (0, 100),
      AddNode Model (ModelCfg other_model) ''second model'' (0, 200),
      Attach 1 2 ModelSlot]"

definition example_team :: Node where
  "example_team =
     \<lparr>nid = 1, kind = Team, node_label = ''team'',
      node_config = TeamCfg (bare_team\<lparr>team_model_client := Some gpt_model\<rparr>), position = (0, 0)\<rparr>"

definition example_edge :: Edge where
  "example_edge =
     \<lparr>eid = 1,
      source = \<lparr>owner = 2, role = Source, slot_id = ''output-handle''\<rparr>,
      target = \<lparr>owner = 1, role = Target, slot_id = ''input-handle''\<rparr>,
      connection_type = model_connection\<rparr>"

definition example_graph :: Graph where
  "example_graph =
     \<lparr>nodes =
        [example_team,
         \<lparr>nid = 2, kind = Model, node_label = ''first model'',
          node_config = ModelCfg gpt_model, position = (0, 100)\<rparr>,
         \<lparr>nid = 3, kind = Model, node_label = ''second model'',
          node_config = ModelCfg other_model, position = (0, 200)\<rparr>],
      edges = [example_edge]\<rparr>"

section \<open>Properties of the drop-zone check\<close>

lemma truthy_not_nullish: "truthy v \<Longrightarrow> \<not> isNullish v"
  by (cases v) simp_all

lemma chain_of_truthy_optChain:
  "truthy (optChain v ks) \<Longrightarrow> chain v ks = Inr (optChain v ks)"
proof (induction ks arbitrary: v)
  case Nil
  then show ?case by simp
next
  case (Cons k ks)
  show ?case
  proof (cases "isNullish v")
    case True
    with Cons.prems show ?thesis by simp
  next
    case False
    with Cons show ?thesis by simp
  qed
qed

lemma isValidDrop_value:
  "isValidDrop accepts isOver active =
     Inr (if \<not> isOver then JBool False
          else if \<not> truthy (draggedType active) then draggedType active
          else JBool (accepts_includes accepts (draggedType active)))"
  by (simp add: isValidDrop_def draggedType_def Let_def chain_of_truthy_optChain)

lemma canDrop_value:
  "canDrop accepts isOver active =
     Inr (isOver \<and> truthy (draggedType active) \<and> accepts_includes accepts (draggedType active))"
  by (simp add: canDrop_def isValidDrop_value)

lemma accepts_includes_set:
  "accepts_includes ks v = (v \<in> set (map (\<lambda>k. JStr (ComponentTypes_str k)) ks))"
  by (induction ks) auto

text \<open>
  C3. A zone whose \<open>accepts\<close> is empty reports every drop as not legal, and so does
  any zone when there is no active dragged item (\<^verbatim>\<open>active\<close> is \<^verbatim>\<open>null\<close> or
  \<^verbatim>\<open>undefined\<close>); the outcome is the verdict \<open>False\<close>, not an error.
\<close>

theorem canDrop_rejects_empty_accepts_and_no_active:
  "canDrop [] isOver active = Inr False \<and>
   canDrop accepts isOver JNull = Inr False \<and>
   canDrop accepts isOver JUndefined = Inr False"
  by (simp add: canDrop_value draggedType_def activeTypePath_def)

text \<open>
  C4, as the claim states it, fails: with the same \<open>accepts\<close> and the same dragged item
  the verdict changes with \<open>isOver\<close>, the flag that says whether the pointer is over
  the zone.
\<close>

theorem canDrop_changes_with_isOver:
  "canDrop [Model] True (activeOfType ''model'') = Inr True \<and>
   canDrop [Model] False (activeOfType ''model'') = Inr False"
  by (simp add: canDrop_value draggedType_def activeTypePath_def activeOfType_def)

text \<open>
  C4, amended. The verdict is a function of three things: whether the pointer is over the
  zone, the set of accepted kinds, and the dragged item's type. Two checks that agree on
  all three give the same verdict, whatever else the drag context holds; with the pointer
  elsewhere the verdict is always \<open>False\<close>. The check is a pure function: nothing is
  mutated.
\<close>

theorem canDrop_function_of_isOver_accepts_type:
  assumes "set accepts = set accepts'"
    and "draggedType active = draggedType active'"
  shows "canDrop accepts isOver active = canDrop accepts' isOver active' \<and>
         canDrop accepts False active = Inr False"
  using assms by (simp add: canDrop_value accepts_includes_set)

theorem canDrop_function_of_isOver_accepts_type_witness:
  "set [Model, Agent] = set [Agent, Model, Agent] \<and>
   draggedType (activeOfType ''agent'') =
     draggedType (JObj [(''id'', JNum 7), (''data'', getProp (activeOfType ''agent'') ''data'')]) \<and>
   canDrop [Model, Agent] True (activeOfType ''agent'') = Inr True \<and>
   canDrop [Agent, Model, Agent] True
     (JObj [(''id'', JNum 7), (''data'', getProp (activeOfType ''agent'') ''data'')]) = Inr True"
proof -
  let ?a = "activeOfType ''agent''"
  let ?b = "JObj [(''id'', JNum 7), (''data'', getProp (activeOfType ''agent'') ''data'')]"
  have s: "set [Model, Agent] = set [Agent, Model, Agent]" by auto
  have d: "draggedType ?a = draggedType ?b"
    by (simp add: draggedType_def activeTypePath_def activeOfType_def)
  have v: "canDrop [Model, Agent] True ?a = Inr True"
    by (simp add: canDrop_value draggedType_def activeTypePath_def activeOfType_def)
  from canDrop_function_of_isOver_accepts_type [OF s d, of True] v s d
  show ?thesis by simp
qed

text \<open>
  C5. The check never throws: for every drag context, whether \<^verbatim>\<open>active\<close> is absent or
  any of \<^verbatim>\<open>data\<close>, \<^verbatim>\<open>current\<close>, \<^verbatim>\<open>current.current\<close>, \<^verbatim>\<open>type\<close> is missing, evaluating
  \<^verbatim>\<open>isValidDrop\<close> yields a value and the verdict taken from it is a boolean.
\<close>

theorem canDrop_never_throws:
  "(\<exists>v. isValidDrop accepts isOver active = Inr v) \<and>
   (\<exists>b. canDrop accepts isOver active = Inr b) \<and>
   (\<exists>cls. DroppableZone accepts className isOver active = Inr cls)"
  by (simp add: isValidDrop_value canDrop_value DroppableZone_def)

section \<open>Properties of the node components\<close>

text \<open>
  C1. The claim asks of an Agent node one handle of role target and one of role source.
  \<^verbatim>\<open>AgentNode\<close> renders two handles of role target, the second being the one with id
  \<^verbatim>\<open>-output-handle\<close> on the right, and none of role source.
\<close>

theorem AgentNode_handles_are_both_target:
  "handlesOfType Target (AgentNode props) =
     [input_handle Target (node_id props), output_handle Target (node_id props)] \<and>
   handlesOfType Source (AgentNode props) = []"
  by (simp add: handlesOfType_def AgentNode_def input_handle_def output_handle_def)

text \<open>
  C6. A Team node has its input handle (role target) exactly when its config has a model
  client or a termination condition, and it always has exactly one output handle (role
  source).
\<close>

theorem TeamNode_input_handle_iff_attached:
  assumes "config (data props) = TeamCfg c"
  shows "handlesOfType Target (TeamNode props) =
           (if team_model_client c \<noteq> None \<or> termination_condition c \<noteq> None
            then [input_handle Target (node_id props)] else []) \<and>
         handlesOfType Source (TeamNode props) = [output_handle Source (node_id props)]"
  using assms
  by (simp add: handlesOfType_def TeamNode_def input_handle_def output_handle_def)

theorem TeamNode_input_handle_iff_attached_witness:
  "config (data team_props) = TeamCfg team_with_model \<and>
   handlesOfType Target (TeamNode team_props) = [input_handle Target ''n1''] \<and>
   handlesOfType Source (TeamNode team_props) = [output_handle Source ''n1'']"
proof -
  have c: "config (data team_props) = TeamCfg team_with_model"
    by (simp add: team_props_def)
  from TeamNode_input_handle_iff_attached [OF c] c
  show ?thesis by (simp add: team_props_def team_with_model_def)
qed

text \<open>
  C7. A Model, a Tool and a Termination node each render exactly one handle of role source
  and no handle of role target, whatever their props.
\<close>

theorem leaf_nodes_one_source_handle:
  "handlesOfType Source (ModelNode props) = [output_handle Source (node_id props)] \<and>
   handlesOfType Target (ModelNode props) = [] \<and>
   handlesOfType Source (ToolNode props) = [output_handle Source (node_id props)] \<and>
   handlesOfType Target (ToolNode props) = [] \<and>
   handlesOfType Source (TerminationNode props) = [output_handle Source (node_id props)] \<and>
   handlesOfType Target (TerminationNode props) = []"
  by (simp add: handlesOfType_def ModelNode_def ToolNode_def TerminationNode_def
      output_handle_def)

text \<open>
  C9, as the claim states it, fails: a node's data can carry kind team with an agent's
  config, and \<^verbatim>\<open>TeamNode\<close>, the component registered for the kind, does not look at the
  tag. It reads the agent's \<^verbatim>\<open>model_client\<close> as the team's and renders the input handle.
\<close>

theorem TeamNode_reads_agent_config:
  "configTag (config (data mismatched_props)) = Agent \<and>
   data_type (data mismatched_props) = Team \<and>
   handles (nodeTypes (data_type (data mismatched_props)) mismatched_props) =
     [input_handle Target ''n1'', output_handle Source ''n1'']"
  by (simp add: mismatched_props_def TeamNode_def agent_with_model_def)

text \<open>
  C9, amended. The components do not dispatch on the config's tag: \<^verbatim>\<open>nodeTypes\<close> picks
  the component by the kind key alone, and the component reads the config through an
  unchecked cast, field by name. The handles and drop zones rendered depend only on the
  node's id and on what \<^verbatim>\<open>model_client\<close> and \<^verbatim>\<open>termination_condition\<close> read, not on
  \<^verbatim>\<open>data.type\<close> and not on the variant of the config. That the tag equals the kind is
  relied on, not checked.
\<close>

theorem nodeTypes_reads_config_by_name:
  assumes "node_id p = node_id p'"
    and "read_model_client (config (data p)) = read_model_client (config (data p'))"
    and "read_termination_condition (config (data p)) =
         read_termination_condition (config (data p'))"
  shows "nodeTypes k p = nodeTypes k p'"
  using assms
  by (cases k)
    (simp_all add: TeamNode_def AgentNode_def ModelNode_def ToolNode_def TerminationNode_def)

theorem nodeTypes_reads_config_by_name_witness:
  "node_id mismatched_props = node_id team_props \<and>
   config (data mismatched_props) \<noteq> config (data team_props) \<and>
   nodeTypes Team mismatched_props = nodeTypes Team team_props"
proof -
  have i: "node_id mismatched_props = node_id team_props"
    by (simp add: mismatched_props_def team_props_def)
  have m: "read_model_client (config (data mismatched_props)) =
           read_model_client (config (data team_props))"
    by (simp add: mismatched_props_def team_props_def agent_with_model_def team_with_model_def)
  have t: "read_termination_condition (config (data mismatched_props)) =
           read_termination_condition (config (data team_props))"
    by (simp add: mismatched_props_def team_props_def team_with_model_def)
  have n: "config (data mismatched_props) \<noteq> config (data team_props)"
    by (simp add: mismatched_props_def team_props_def)
  from nodeTypes_reads_config_by_name [OF i m t, of Team] i n
  show ?thesis by simp
qed

section \<open>Properties of the edge renderer\<close>

text \<open>An edge whose data carries no connection type (data absent, or \<^verbatim>\<open>data.type\<close>
  missing or otherwise falsy) gets the edge type model-connection, and the style computed
  from it is the model-connection stroke with width 2.\<close>

lemma edgeType_falls_back:
  "\<not> truthy (optChain edata [''type'']) \<Longrightarrow>
   edgeType edata = JStr (EdgeType_str model_connection) \<and>
   edgeStyle edata = \<lparr>stroke = Some ''rgb(59, 130, 246)'', strokeWidth = Some 2\<rparr>"
  by (simp add: edgeType_def edgeStyle_def EDGE_STYLES_def)

text \<open>
  C10. The claim asks that an edge without a connection type be drawn with the
  model-connection style. \<^verbatim>\<open>CustomEdge\<close> computes that style, and then spreads
  \<^verbatim>\<open>{...props}\<close> after \<^verbatim>\<open>style=\<close>: for an edge without data whose props have an own
  \<^verbatim>\<open>style\<close> property with value \<^verbatim>\<open>undefined\<close>, the edge type falls back to
  model-connection and the computed style is the model-connection one, but \<^verbatim>\<open>BaseEdge\<close>
  is handed no style. Only when the props have no \<^verbatim>\<open>style\<close> property at all does the
  computed style arrive.
\<close>

theorem CustomEdge_computed_style_lost_to_props:
  "edgeType JUndefined = JStr ''model-connection'' \<and>
   edgeStyle JUndefined = \<lparr>stroke = Some ''rgb(59, 130, 246)'', strokeWidth = Some 2\<rparr> \<and>
   CustomEdge JUndefined \<lparr>own_path = Absent, own_style = Present None\<rparr> ''M0,0 C1,0 1,1 2,1'' =
     \<lparr>path = Some ''M0,0 C1,0 1,1 2,1'', style = None\<rparr> \<and>
   CustomEdge JUndefined \<lparr>own_path = Absent, own_style = Absent\<rparr> ''M0,0 C1,0 1,1 2,1'' =
     \<lparr>path = Some ''M0,0 C1,0 1,1 2,1'',
      style = Some \<lparr>stroke = Some ''rgb(59, 130, 246)'', strokeWidth = Some 2\<rparr>\<rparr>"
  by (simp add: edgeType_def edgeStyle_def CustomEdge_def EDGE_STYLES_def)

section \<open>Properties of the graph assembler\<close>

text \<open>No operation changes the kind of a node that stays in the graph.\<close>

lemma find_mapConfig_kind:
  "map_option kind (find (\<lambda>n. nid n = i) (mapConfig j f ns)) =
   map_option kind (find (\<lambda>n. nid n = i) ns)"
  by (induction ns) (simp_all add: mapConfig_def)

lemma kindOf_mapConfig:
  "kindOf (g\<lparr>nodes := mapConfig j f (nodes g), edges := es\<rparr>) i = kindOf g i"
  by (simp add: kindOf_def lookupNode_def find_mapConfig_kind)

lemma find_append_Some: "find P xs = Some x \<Longrightarrow> find P (xs @ ys) = Some x"
  by (induction xs) (auto split: if_splits)

lemma kindOf_addNode:
  "kindOf g i = Some k \<Longrightarrow> kindOf (addNode g k' c l pos) i = Some k"
  by (auto simp: kindOf_def lookupNode_def addNode_def find_append_Some)

lemma edges_addNode: "edges (addNode g k c l pos) = edges g"
  by (simp add: addNode_def)

lemma lookupNode_nid: "lookupNode g i = Some n \<Longrightarrow> nid n = i"
  by (auto simp: lookupNode_def find_Some_iff)

lemma kindOf_detach: "kindOf (detach g x) i = kindOf g i"
  by (simp add: detach_def kindOf_def lookupNode_def find_mapConfig_kind
      split: option.splits)

lemma edges_detach: "edges (detach g x) = filter (\<lambda>e. eid e \<noteq> x) (edges g)"
proof (cases "find (\<lambda>e. eid e = x) (edges g)")
  case None
  then have "\<forall>e \<in> set (edges g). eid e \<noteq> x" by (simp add: find_None_iff)
  then have "filter (\<lambda>e. eid e \<noteq> x) (edges g) = edges g" by (simp add: filter_id_conv)
  with None show ?thesis by (simp add: detach_def)
next
  case (Some e)
  then show ?thesis by (simp add: detach_def)
qed

lemma kindOf_fold_detach: "kindOf (fold (\<lambda>e h. detach h (eid e)) es g) i = kindOf g i"
  by (induction es arbitrary: g) (simp_all add: kindOf_detach)

lemma edges_fold_detach:
  "edges (fold (\<lambda>e h. detach h (eid e)) es g) =
   filter (\<lambda>e'. eid e' \<notin> eid ` set es) (edges g)"
proof (induction es arbitrary: g)
  case Nil
  then show ?case by simp
next
  case (Cons a es)
  show ?case by (simp add: Cons.IH edges_detach)
qed

lemma find_filter_other:
  "j \<noteq> i \<Longrightarrow> find (\<lambda>n. nid n = j) (filter (\<lambda>n. nid n \<noteq> i) ns) = find (\<lambda>n. nid n = j) ns"
  by (induction ns) auto

lemma kindOf_removeNode: "j \<noteq> i \<Longrightarrow> kindOf (removeNode g i) j = kindOf g j"
proof -
  assume ji: "j \<noteq> i"
  let ?t = "filter (\<lambda>e. owner (source e) = i \<or> owner (target e) = i) (edges g)"
  let ?g = "fold (\<lambda>e h. detach h (eid e)) ?t g"
  have "kindOf (removeNode g i) j = map_option kind (find (\<lambda>n. nid n = j) (nodes ?g))"
    using ji by (simp add: removeNode_def Let_def kindOf_def lookupNode_def find_filter_other)
  also have "\<dots> = kindOf ?g j" by (simp add: kindOf_def lookupNode_def)
  also have "\<dots> = kindOf g j" by (rule kindOf_fold_detach)
  finally show ?thesis .
qed

lemma edges_removeNode:
  "e \<in> set (edges (removeNode g i)) \<Longrightarrow>
   e \<in> set (edges g) \<and> owner (source e) \<noteq> i \<and> owner (target e) \<noteq> i"
  by (auto simp: removeNode_def Let_def edges_fold_detach)

text \<open>Every operation keeps the edges typed by their endpoints.\<close>

lemma edgeTyped_iff:
  "edgeTyped g e =
     (\<exists>ks kt. kindOf g (owner (source e)) = Some ks \<and> kindOf g (owner (target e)) = Some kt \<and>
        deriveConnectionType ks kt = Some (connection_type e))"
  by (auto simp: edgeTyped_def edgeKinds_def split: option.splits)

lemma typed_addNode:
  assumes "\<forall>e \<in> set (edges g). edgeTyped g e"
  shows "\<forall>e \<in> set (edges (addNode g k c l pos)). edgeTyped (addNode g k c l pos) e"
proof
  fix e assume "e \<in> set (edges (addNode g k c l pos))"
  then have "e \<in> set (edges g)" by (simp add: edges_addNode)
  with assms have "edgeTyped g e" by blast
  then show "edgeTyped (addNode g k c l pos) e"
    unfolding edgeTyped_iff by (blast intro: kindOf_addNode)
qed

lemma typed_detach:
  assumes "\<forall>e \<in> set (edges g). edgeTyped g e"
  shows "\<forall>e \<in> set (edges (detach g x)). edgeTyped (detach g x) e"
  using assms by (simp add: edges_detach edgeTyped_iff kindOf_detach)

lemma typed_removeNode:
  assumes "\<forall>e \<in> set (edges g). edgeTyped g e"
  shows "\<forall>e \<in> set (edges (removeNode g i)). edgeTyped (removeNode g i) e"
proof
  fix e assume "e \<in> set (edges (removeNode g i))"
  then have e: "e \<in> set (edges g)" "owner (source e) \<noteq> i" "owner (target e) \<noteq> i"
    by (auto dest: edges_removeNode)
  from e(1) assms have "edgeTyped g e" by blast
  with e(2,3) show "edgeTyped (removeNode g i) e"
    by (simp add: edgeTyped_iff kindOf_removeNode)
qed

lemma proposeConnection_Inr:
  assumes "proposeConnection g s t slot = Inr e"
  shows "owner (source e) = nid s \<and> owner (target e) = nid t \<and>
         deriveConnectionType (kind s) (kind t) = Some (connection_type e)"
  using assms by (auto simp: proposeConnection_def split: option.splits if_splits)

lemma typed_attach:
  assumes "\<forall>e \<in> set (edges g). edgeTyped g e"
  shows "\<forall>e \<in> set (edges (snd (attach g p c slot))). edgeTyped (snd (attach g p c slot)) e"
proof (cases "lookupNode g p")
  case None
  with assms show ?thesis by (simp add: attach_def)
next
  case (Some parent)
  note P = this
  show ?thesis
  proof (cases "lookupNode g c")
    case None
    with assms P show ?thesis by (simp add: attach_def)
  next
    case (Some child)
    note C = this
    show ?thesis
    proof (cases "proposeConnection g child parent slot")
      case (Inl err)
      with assms P C show ?thesis by (simp add: attach_def)
    next
      case (Inr e)
      let ?g = "g\<lparr>nodes := mapConfig p (\<lambda>cf. holdReference cf (node_config child)) (nodes g),
                   edges := edges g @ [e]\<rparr>"
      have g': "snd (attach g p c slot) = ?g" using P C Inr by (simp add: attach_def)
      have k: "\<And>i. kindOf ?g i = kindOf g i" by (rule kindOf_mapConfig)
      from proposeConnection_Inr [OF Inr] lookupNode_nid [OF P] lookupNode_nid [OF C]
      have "owner (source e) = c" "owner (target e) = p"
        "deriveConnectionType (kind child) (kind parent) = Some (connection_type e)"
        by simp_all
      moreover have "kindOf g c = Some (kind child)" "kindOf g p = Some (kind parent)"
        using P C by (simp_all add: kindOf_def)
      ultimately have new: "edgeTyped ?g e" by (simp add: edgeTyped_iff k)
      have old: "\<forall>e' \<in> set (edges g). edgeTyped ?g e'"
        using assms by (simp add: edgeTyped_iff k)
      from new old show ?thesis unfolding g' by simp
    qed
  qed
qed

lemma typed_applyOp:
  assumes "\<forall>e \<in> set (edges g). edgeTyped g e"
  shows "\<forall>e \<in> set (edges (applyOp g op)). edgeTyped (applyOp g op) e"
proof (cases op)
  case (AddNode k c l pos)
  with typed_addNode [OF assms] show ?thesis by simp
next
  case (Attach p c slot)
  with typed_attach [OF assms] show ?thesis by simp
next
  case (Detach x)
  with typed_detach [OF assms] show ?thesis by simp
next
  case (RemoveNode i)
  with typed_removeNode [OF assms] show ?thesis by simp
qed

lemma typed_foldl:
  "\<forall>e \<in> set (edges g). edgeTyped g e \<Longrightarrow>
   \<forall>e \<in> set (edges (foldl applyOp g ops)). edgeTyped (foldl applyOp g ops) e"
proof (induction ops arbitrary: g)
  case Nil
  then show ?case by simp
next
  case (Cons op ops)
  from Cons.IH [OF typed_applyOp [OF Cons.prems]] show ?case by simp
qed

lemma typed_run: "e \<in> set (edges (run ops)) \<Longrightarrow> edgeTyped (run ops) e"
  using typed_foldl [of emptyGraph ops] by (simp add: run_def emptyGraph_def)

lemma deriveConnectionType_Some:
  "deriveConnectionType ks kt = Some ct \<Longrightarrow>
   (ks, kt, ct) \<in> {(Model, Team, model_connection), (Model, Agent, model_connection),
                    (Tool, Agent, tool_connection), (Agent, Team, participant_connection)}"
  by (cases ks; cases kt) auto

lemma run_example_ops: "run example_ops = example_graph"
  by (simp add: run_def example_ops_def emptyGraph_def addNode_def freshNodeId_def
      attach_def lookupNode_def proposeConnection_def freshEdgeId_def mapConfig_def
      example_graph_def example_team_def example_edge_def bare_team_def)

text \<open>
  C2. In every graph the assembler can build, each edge joins two nodes of the graph, its
  connection type is the one the table derives from the kinds of its source and target,
  and the kind pair is one of the four of the table; in particular no edge runs from a
  termination to a team. Each connection type is one of the registered \<^verbatim>\<open>edgeTypes\<close>.
\<close>

theorem edges_typed_by_endpoint_kinds:
  assumes "e \<in> set (edges (run ops))"
  shows "\<exists>ks kt. edgeKinds (run ops) e = (Some ks, Some kt) \<and>
           deriveConnectionType ks kt = Some (connection_type e) \<and>
           (ks, kt, connection_type e) \<in>
             {(Model, Team, model_connection), (Model, Agent, model_connection),
              (Tool, Agent, tool_connection), (Agent, Team, participant_connection)} \<and>
           (ks, kt) \<noteq> (Termination, Team) \<and>
           connection_type e \<in> set edgeTypes"
proof -
  from typed_run [OF assms] obtain ks kt where
    k: "edgeKinds (run ops) e = (Some ks, Some kt)"
    and d: "deriveConnectionType ks kt = Some (connection_type e)"
    by (auto simp: edgeTyped_iff edgeKinds_def)
  have r: "connection_type e \<in> set edgeTypes"
    by (cases "connection_type e") (simp_all add: edgeTypes_def)
  from deriveConnectionType_Some [OF d] k d r show ?thesis by auto
qed

theorem edges_typed_by_endpoint_kinds_witness:
  "example_edge \<in> set (edges (run example_ops)) \<and>
   edgeKinds (run example_ops) example_edge = (Some Model, Some Team) \<and>
   deriveConnectionType Model Team = Some (connection_type example_edge)"
proof -
  have m: "example_edge \<in> set (edges (run example_ops))"
    by (simp add: run_example_ops example_graph_def)
  have k: "edgeKinds (run example_ops) example_edge = (Some Model, Some Team)"
    by (simp add: run_example_ops example_graph_def edgeKinds_def kindOf_def lookupNode_def
        example_edge_def example_team_def)
  from edges_typed_by_endpoint_kinds [OF m] k m show ?thesis by auto
qed

text \<open>
  C8. When a team of the graph already holds a model reference, attaching a model to its
  model slot fails with \<open>SlotOccupied\<close> and leaves the graph as it was: the edges and
  the team's model reference are those of before, nothing is replaced.
\<close>

theorem attach_second_model_SlotOccupied:
  assumes "lookupNode g teamId = Some t" and "kind t = Team"
    and "read_model_client (node_config t) \<noteq> None"
    and "lookupNode g modelId = Some m" and "kind m = Model"
  shows "attach g teamId modelId ModelSlot = (Inl SlotOccupied, g) \<and>
         proposeConnection g m t ModelSlot = Inl SlotOccupied"
  using assms by (simp add: attach_def proposeConnection_def)

theorem attach_second_model_SlotOccupied_witness:
  "lookupNode (run example_ops) 1 = Some example_team \<and> kind example_team = Team \<and>
   read_model_client (node_config example_team) = Some gpt_model \<and>
   kindOf (run example_ops) 3 = Some Model \<and>
   attach (run example_ops) 1 3 ModelSlot = (Inl SlotOccupied, run example_ops) \<and>
   edges (snd (attach (run example_ops) 1 3 ModelSlot)) = [example_edge]"
proof -
  let ?m = "\<lparr>nid = 3, kind = Model, node_label = ''second model'',
             node_config = ModelCfg other_model, position = (0, 200)\<rparr>"
  have t: "lookupNode (run example_ops) 1 = Some example_team"
    by (simp add: run_example_ops example_graph_def lookupNode_def example_team_def)
  have k: "kind example_team = Team" by (simp add: example_team_def)
  have r: "read_model_client (node_config example_team) \<noteq> None"
    by (simp add: example_team_def)
  have m: "lookupNode (run example_ops) 3 = Some ?m"
    by (simp add: run_example_ops example_graph_def lookupNode_def example_team_def)
  have km: "kind ?m = Model" by simp
  have e: "edges (run example_ops) = [example_edge]"
    by (simp add: run_example_ops example_graph_def)
  from attach_second_model_SlotOccupied [OF t k r m km] t k m e
  show ?thesis by (simp add: example_team_def kindOf_def)
qed

end
